theory Spec2Isabelle
  imports Main "HOL-Library.Sublist"
begin

section \<open>Strings and the regular expressions of \<open>utils/sanitize.ts\<close>\<close>

text \<open>
  A JavaScript string is a sequence of code units. The model uses \<open>string\<close>, so a
  character is a code unit in the range 0..255 (read as Latin-1). The regular
  expressions of the source only name ASCII characters, and no code unit outside ASCII
  canonicalizes to an ASCII letter under the \<open>i\<close> flag.
\<close>

definition isSpace :: "char \<Rightarrow> bool" where
  \<comment> \<open>the class \<open>\s\<close>, which is also what \<open>String.prototype.trim\<close> removes\<close>
  "isSpace c = (c \<in> {CHR 0x09, CHR 0x0A, CHR 0x0B, CHR 0x0C, CHR 0x0D, CHR 0x20, CHR 0xA0})"

definition isWordChar :: "char \<Rightarrow> bool" where
  \<comment> \<open>the class \<open>\w\<close> = \<open>[A-Za-z0-9_]\<close>, which decides \<open>\b\<close>\<close>
  "isWordChar c =
     (let n = (of_char c :: nat)
      in (65 \<le> n \<and> n \<le> 90) \<or> (97 \<le> n \<and> n \<le> 122) \<or> (48 \<le> n \<and> n \<le> 57) \<or> n = 95)"

definition canonicalize :: "char \<Rightarrow> nat" where
  \<comment> \<open>case folding of the \<open>i\<close> flag, on code unit numbers: a..z become A..Z\<close>
  "canonicalize c =
     (let n = (of_char c :: nat) in if 97 \<le> n \<and> n \<le> 122 then n - 32 else n)"

definition ci :: "char \<Rightarrow> char \<Rightarrow> bool" where
  \<comment> \<open>a pattern character \<open>p\<close> under the \<open>i\<close> flag\<close>
  "ci p c = (canonicalize c = canonicalize p)"

definition notGt :: "char \<Rightarrow> bool" where
  \<comment> \<open>the class \<open>[^>]\<close>\<close>
  "notGt c = (c \<noteq> CHR ''>'')"

definition anyChar :: "char \<Rightarrow> bool" where
  \<comment> \<open>the class \<open>[\s\S]\<close>\<close>
  "anyChar c = True"

text \<open>
  The fragment of JavaScript regular expressions that the source uses: single
  characters and classes, greedy and lazy repetition of a class, sequence, alternation,
  an optional group, a negative lookahead, the word boundary and one capture group.
  \<open>CapEnd\<close> is internal to the matcher: it marks where an open capture group ends.
\<close>

datatype rx =
    Chr "char \<Rightarrow> bool"
  | Star "char \<Rightarrow> bool"
  | Plus "char \<Rightarrow> bool"
  | LazyStar "char \<Rightarrow> bool"
  | Seq rx rx
  | Alt rx rx
  | Opt rx
  | NegLook rx
  | WordB
  | Cap rx
  | CapEnd string
  | Eps

fun wt :: "rx \<Rightarrow> nat" where
  "wt (Chr c) = 1"
| "wt (Star c) = 1"
| "wt (Plus c) = 3"
| "wt (LazyStar c) = 1"
| "wt (Seq a b) = wt a + wt b + 1"
| "wt (Alt a b) = wt a + wt b + 1"
| "wt (Opt a) = wt a + 1"
| "wt (NegLook a) = wt a + 1"
| "wt WordB = 1"
| "wt (Cap a) = wt a + 2"
| "wt (CapEnd s) = 1"
| "wt Eps = 1"

type_synonym mstate = "string option \<times> char option \<times> string"

definition wordAt :: "char option \<Rightarrow> bool" where
  "wordAt c = (case c of None \<Rightarrow> False | Some x \<Rightarrow> isWordChar x)"

definition nextChar :: "string \<Rightarrow> char option" where
  "nextChar s = (case s of [] \<Rightarrow> None | x # _ \<Rightarrow> Some x)"

text \<open>
  The backtracking matcher. \<open>mtch k cap prev s\<close> matches the sequence \<open>k\<close> of
  expressions at the head of \<open>s\<close>, where \<open>prev\<close> is the character just before
  \<open>s\<close> (for \<open>\b\<close>) and \<open>cap\<close> the text of capture group 1 so far. It returns the
  first success in the priority order of the ECMAScript semantics (greedy repetition
  tries the longest first, lazy the shortest, alternation left to right): the capture,
  the last character matched and the rest of the input after the match.
\<close>

function mtch :: "rx list \<Rightarrow> string option \<Rightarrow> char option \<Rightarrow> string \<Rightarrow> mstate option" where
  "mtch [] cap prev s = Some (cap, prev, s)"
| "mtch (Eps # k) cap prev s = mtch k cap prev s"
| "mtch (Chr c # k) cap prev s =
     (case s of [] \<Rightarrow> None
      | x # xs \<Rightarrow> if c x then mtch k cap (Some x) xs else None)"
| "mtch (Star c # k) cap prev s =
     (case s of [] \<Rightarrow> mtch k cap prev s
      | x # xs \<Rightarrow>
          if c x then
            (case mtch (Star c # k) cap (Some x) xs of
               Some r \<Rightarrow> Some r
             | None \<Rightarrow> mtch k cap prev s)
          else mtch k cap prev s)"
| "mtch (Plus c # k) cap prev s = mtch (Chr c # Star c # k) cap prev s"
| "mtch (LazyStar c # k) cap prev s =
     (case mtch k cap prev s of
        Some r \<Rightarrow> Some r
      | None \<Rightarrow>
         (case s of [] \<Rightarrow> None
          | x # xs \<Rightarrow> if c x then mtch (LazyStar c # k) cap (Some x) xs else None))"
| "mtch (Seq a b # k) cap prev s = mtch (a # b # k) cap prev s"
| "mtch (Alt a b # k) cap prev s =
     (case mtch (a # k) cap prev s of
        Some r \<Rightarrow> Some r
      | None \<Rightarrow> mtch (b # k) cap prev s)"
| "mtch (Opt a # k) cap prev s =
     (case mtch (a # k) cap prev s of
        Some r \<Rightarrow> Some r
      | None \<Rightarrow> mtch k cap prev s)"
| "mtch (NegLook a # k) cap prev s =
     (case mtch [a] cap prev s of
        Some r \<Rightarrow> None
      | None \<Rightarrow> mtch k cap prev s)"
| "mtch (WordB # k) cap prev s =
     (if wordAt prev \<noteq> wordAt (nextChar s) then mtch k cap prev s else None)"
| "mtch (Cap a # k) cap prev s = mtch (a # CapEnd s # k) cap prev s"
| "mtch (CapEnd s0 # k) cap prev s = mtch k (Some (take (length s0 - length s) s0)) prev s"
  by pat_completeness auto
termination
  by (relation "measures [\<lambda>(k, cap, prev, s). sum_list (map wt k),
                          \<lambda>(k, cap, prev, s). length s]") auto

text \<open>
  \<open>String.prototype.replace\<close> with a global (\<open>g\<close>) expression: scan from the left,
  at each index try the expression; on a match emit the replacement (a function of the
  capture, for \<open>$1\<close>) and go on after the match, or one character further when the
  match is empty; otherwise copy the character.
\<close>

function replaceAll :: "rx \<Rightarrow> (string option \<Rightarrow> string) \<Rightarrow> char option \<Rightarrow> string \<Rightarrow> string" where
  "replaceAll r rep prev s =
     (case mtch [r] None prev s of
        Some (cap, prev', rest) \<Rightarrow>
          if length rest < length s then rep cap @ replaceAll r rep prev' rest
          else rep cap @ (case s of [] \<Rightarrow> [] | x # xs \<Rightarrow> x # replaceAll r rep (Some x) xs)
      | None \<Rightarrow> (case s of [] \<Rightarrow> [] | x # xs \<Rightarrow> x # replaceAll r rep (Some x) xs))"
  by pat_completeness auto
termination
  by (relation "measure (\<lambda>(r, rep, prev, s). length s)") auto

definition replace :: "rx \<Rightarrow> (string option \<Rightarrow> string) \<Rightarrow> string \<Rightarrow> string" where
  "replace r rep s = replaceAll r rep None s"

fun lits :: "string \<Rightarrow> rx" where
  \<comment> \<open>a run of literal pattern characters\<close>
  "lits [] = Eps"
| "lits [c] = Chr (ci c)"
| "lits (c # cs) = Seq (Chr (ci c)) (lits cs)"

fun seqs :: "rx list \<Rightarrow> rx" where
  "seqs [] = Eps"
| "seqs [a] = a"
| "seqs (a # as) = Seq a (seqs as)"

definition const_rep :: "string \<Rightarrow> string option \<Rightarrow> string" where
  \<comment> \<open>a replacement string without \<open>$\<close> references\<close>
  "const_rep t cap = t"

definition group1 :: "string option \<Rightarrow> string" where
  \<comment> \<open>\<open>$1\<close>: the text of capture group 1, empty when the group did not take part\<close>
  "group1 cap = (case cap of None \<Rightarrow> [] | Some t \<Rightarrow> t)"

definition trim :: "string \<Rightarrow> string" where
  "trim s = rev (dropWhile isSpace (rev (dropWhile isSpace s)))"

subsection \<open>The expressions of the source\<close>

definition rx_open_b :: rx where
  \<comment> \<open>\<open>/<b(\s[^>]*)?>/gi\<close>\<close>
  "rx_open_b = seqs [lits ''<b'', Opt (Cap (Seq (Chr isSpace) (Star notGt))), lits ''>'']"

definition rx_close_b :: rx where
  \<comment> \<open>\<open>/<\/b>/gi\<close>\<close>
  "rx_close_b = lits ''</b>''"

definition rx_open_i :: rx where
  \<comment> \<open>\<open>/<i(\s[^>]*)?>/gi\<close>\<close>
  "rx_open_i = seqs [lits ''<i'', Opt (Cap (Seq (Chr isSpace) (Star notGt))), lits ''>'']"

definition rx_close_i :: rx where
  \<comment> \<open>\<open>/<\/i>/gi\<close>\<close>
  "rx_close_i = lits ''</i>''"

definition rx_allowed :: rx where
  \<comment> \<open>\<open>strong|em|u\<close>\<close>
  "rx_allowed = Alt (lits ''strong'') (Alt (lits ''em'') (lits ''u''))"

definition rx_disallowed :: rx where
  \<comment> \<open>\<open>/<(?!\/?(?:strong|em|u)\b)[^>]*>/gi\<close>\<close>
  "rx_disallowed =
     seqs [lits ''<'', NegLook (seqs [Opt (lits ''/''), rx_allowed, WordB]), Star notGt, lits ''>'']"

definition rx_script :: rx where
  \<comment> \<open>\<open>/<script[^>]*>[\s\S]*?<\/script>/gi\<close>\<close>
  "rx_script = seqs [lits ''<script'', Star notGt, lits ''>'', LazyStar anyChar, lits ''</script>'']"

definition rx_attrs :: rx where
  \<comment> \<open>\<open>/<(strong|em|u)\s[^>]*>/gi\<close>\<close>
  "rx_attrs = seqs [lits ''<'', Cap rx_allowed, Chr isSpace, Star notGt, lits ''>'']"

definition rx_tag :: rx where
  \<comment> \<open>\<open>/<[^>]+>/g\<close>\<close>
  "rx_tag = seqs [lits ''<'', Plus notGt, lits ''>'']"

subsection \<open>\<open>sanitizeTitle\<close> and \<open>plainText\<close>\<close>

text \<open>\<open>sanitizeTitle\<close> as it stands in \<open>src/utils/sanitize.ts\<close>, the module that the
  components import.\<close>

definition sanitizeTitle :: "string \<Rightarrow> string" where
  "sanitizeTitle html =
     trim
      (replace rx_disallowed (const_rep '''')
        (replace rx_close_i (const_rep ''</em>'')
          (replace rx_open_i (const_rep ''<em>'')
            (replace rx_close_b (const_rep ''</strong>'')
              (replace rx_open_b (const_rep ''<strong>'') html)))))"

text \<open>The second copy of \<open>sanitizeTitle\<close> in the repository (\<open>unnamed/part_000\<close>): the
  same chain with a first pass that removes whole \<open>script\<close> elements and a last pass
  that strips the attributes of the allowed tags.\<close>

definition sanitizeTitle_alt :: "string \<Rightarrow> string" where
  "sanitizeTitle_alt html =
     trim
      (replace rx_attrs (\<lambda>cap. ''<'' @ group1 cap @ ''>'')
        (replace rx_disallowed (const_rep '''')
          (replace rx_close_i (const_rep ''</em>'')
            (replace rx_open_i (const_rep ''<em>'')
              (replace rx_close_b (const_rep ''</strong>'')
                (replace rx_open_b (const_rep ''<strong>'')
                  (replace rx_script (const_rep '''') html)))))))"

definition plainText :: "string \<Rightarrow> string" where
  "plainText html = trim (replace rx_tag (const_rep '''') html)"

section \<open>The task store of \<open>hooks/useTasks.ts\<close>\<close>

subsection \<open>Data model (\<open>types/task.ts\<close>)\<close>

datatype Priority = Low | Medium | High

datatype FilterStatus = All | Active | Completed

text \<open>The type \<open>Priority | 'all'\<close> of the priority filter.\<close>

datatype PriorityFilter = AllPriorities | Only Priority

datatype StorageError = Full | Disabled | Null

record Stats =
  total :: nat
  active :: nat
  completed :: nat

record NewTaskInput =
  title :: string
  priority :: Priority
  dueDate :: "string option"

record Task =
  idT :: string
  title :: string
  completed :: bool
  priority :: Priority
  createdAt :: string
  dueDate :: "string option"

text \<open>What a \<open>catch\<close> clause can receive: a \<open>DOMException\<close> with its legacy code
  and its name, or any other thrown value.\<close>

datatype js_error = DOMException nat string | OtherError string

text \<open>The state of the hook: the four \<open>useState\<close> cells.\<close>

record Store =
  tasks :: "Task list"
  filterStatus :: FilterStatus
  filterPriority :: PriorityFilter
  storageError :: StorageError

subsection \<open>Loading and saving\<close>

text \<open>
  \<open>loadTasks\<close> reads the environment twice: \<open>localStorage.getItem\<close> throws, returns
  \<open>null\<close> or returns a string (\<open>getItem\<close>), and \<open>JSON.parse\<close> throws or returns
  the parsed collection (\<open>parse\<close>). \<open>loadTasks_try\<close> is the body of the \<open>try\<close>
  block, where a throw is \<open>Inl\<close>; an empty string is falsy like \<open>null\<close>.
  The result of \<open>JSON.parse\<close> has the type of the source's cast \<open>as Task[]\<close>: a
  stored value that parses to something else than an array of tasks is returned by the
  source as it is, and is outside this model, which therefore says nothing about what
  the hook does with the loaded value afterwards.
\<close>

definition loadTasks_try ::
  "js_error + string option \<Rightarrow> (string \<Rightarrow> js_error + Task list) \<Rightarrow> js_error + Task list" where
  "loadTasks_try getItem parse =
     (case getItem of
        Inl err \<Rightarrow> Inl err
      | Inr stored \<Rightarrow>
          (case stored of
             None \<Rightarrow> Inr []
           | Some str \<Rightarrow> if str = [] then Inr [] else parse str))"

definition loadTasks ::
  "js_error + string option \<Rightarrow> (string \<Rightarrow> js_error + Task list) \<Rightarrow> js_error + Task list" where
  "loadTasks getItem parse =
     (case loadTasks_try getItem parse of
        Inl err \<Rightarrow> Inr []
      | Inr ts \<Rightarrow> Inr ts)"

definition isQuotaError :: "js_error \<Rightarrow> bool" where
  "isQuotaError err =
     (case err of
        DOMException code name \<Rightarrow>
          code = 22 \<or> name = ''QuotaExceededError'' \<or> name = ''NS_ERROR_DOM_QUOTA_REACHED''
      | OtherError msg \<Rightarrow> False)"

text \<open>
  The save effect. Its argument \<open>setItem\<close> is what
  \<open>localStorage.setItem(STORAGE_KEY, JSON.stringify(tasks))\<close> does in the current
  environment for a given collection: \<open>None\<close> when it returns, \<open>Some err\<close> when it
  throws \<open>err\<close>.
\<close>

type_synonym Storage = "Task list \<Rightarrow> js_error option"

definition saveEffect :: "Storage \<Rightarrow> Store \<Rightarrow> Store" where
  "saveEffect setItem st =
     (case setItem (tasks st) of
        None \<Rightarrow> st\<lparr>storageError := Null\<rparr>
      | Some err \<Rightarrow> st\<lparr>storageError := (if isQuotaError err then Full else Disabled)\<rparr>)"

text \<open>
  \<open>setTasks\<close> with an updater function. An updater that returns the array it was
  given (\<open>Same\<close>) makes React bail out: no render, and the effect, which depends on
  \<open>[tasks]\<close>, does not run. A new array (\<open>Fresh\<close>) becomes the state, and the
  effect runs after the render.
\<close>

datatype 'a upd = Same | Fresh 'a

definition setTasks :: "(Task list \<Rightarrow> Task list upd) \<Rightarrow> Storage \<Rightarrow> Store \<Rightarrow> Store" where
  "setTasks updater setItem st =
     (case updater (tasks st) of
        Same \<Rightarrow> st
      | Fresh ts \<Rightarrow> saveEffect setItem (st\<lparr>tasks := ts\<rparr>))"

subsection \<open>Operations\<close>

text \<open>\<open>addTask\<close> takes the two values it reads from the environment:
  \<open>uuid\<close> is the result of \<open>crypto.randomUUID()\<close> and \<open>now\<close> that of
  \<open>new Date().toISOString()\<close>.\<close>

definition newTask :: "string \<Rightarrow> string \<Rightarrow> NewTaskInput \<Rightarrow> Task" where
  "newTask uuid now input =
     \<lparr>idT = uuid,
      title = trim (NewTaskInput.title input),
      completed = False,
      priority = NewTaskInput.priority input,
      createdAt = now,
      dueDate = NewTaskInput.dueDate input\<rparr>"

definition addTask :: "string \<Rightarrow> string \<Rightarrow> NewTaskInput \<Rightarrow> Storage \<Rightarrow> Store \<Rightarrow> Store" where
  "addTask uuid now input = setTasks (\<lambda>prev. Fresh (newTask uuid now input # prev))"

definition toggleTask :: "string \<Rightarrow> Storage \<Rightarrow> Store \<Rightarrow> Store" where
  "toggleTask i =
     setTasks (\<lambda>prev. Fresh (map (\<lambda>t. if idT t = i then t\<lparr>completed := \<not> completed t\<rparr> else t) prev))"

definition deleteTask :: "string \<Rightarrow> Storage \<Rightarrow> Store \<Rightarrow> Store" where
  "deleteTask i = setTasks (\<lambda>prev. Fresh (filter (\<lambda>t. idT t \<noteq> i) prev))"

definition clearCompleted :: "Storage \<Rightarrow> Store \<Rightarrow> Store" where
  "clearCompleted = setTasks (\<lambda>prev. Fresh (filter (\<lambda>t. \<not> completed t) prev))"

definition updateTask :: "string \<Rightarrow> string \<Rightarrow> Storage \<Rightarrow> Store \<Rightarrow> Store" where
  "updateTask i newTitle =
     setTasks (\<lambda>prev. Fresh (map (\<lambda>t. if idT t = i then t\<lparr>title := newTitle\<rparr> else t) prev))"

fun findIndex :: "('a \<Rightarrow> bool) \<Rightarrow> 'a list \<Rightarrow> int" where
  \<comment> \<open>\<open>Array.prototype.findIndex\<close>: the first index that satisfies \<open>p\<close>, or -1\<close>
  "findIndex p [] = - 1"
| "findIndex p (x # xs) =
     (if p x then 0 else (let i = findIndex p xs in if i = - 1 then - 1 else i + 1))"

text \<open>Modelled from the spec: \<open>arrayMove\<close> is imported from the package
  \<open>@dnd-kit/sortable\<close>, which is not under src/. It copies the array, removes the element
  at index \<open>from\<close> and reinserts it at index \<open>to\<close> ("array-move semantics: remove
  then reinsert"). \<open>reorderTasks\<close> only calls it with two indices that \<open>findIndex\<close>
  found; outside the array there is nothing to remove and the model returns the copy.\<close>

definition arrayMove :: "'a list \<Rightarrow> nat \<Rightarrow> nat \<Rightarrow> 'a list" where
  "arrayMove array from to =
     (if from < length array then
        (let removed = array ! from;
             others = take from array @ drop (Suc from) array
         in take to others @ removed # drop to others)
      else array)"

definition reorderTasks :: "string \<Rightarrow> string \<Rightarrow> Storage \<Rightarrow> Store \<Rightarrow> Store" where
  "reorderTasks activeId overId =
     setTasks (\<lambda>prev.
       (let oldIndex = findIndex (\<lambda>t. idT t = activeId) prev;
            newIndex = findIndex (\<lambda>t. idT t = overId) prev
        in if oldIndex = - 1 \<or> newIndex = - 1 then Same
           else Fresh (arrayMove prev (nat oldIndex) (nat newIndex))))"

definition setFilterStatus :: "FilterStatus \<Rightarrow> Store \<Rightarrow> Store" where
  "setFilterStatus v st = st\<lparr>filterStatus := v\<rparr>"

definition setFilterPriority :: "PriorityFilter \<Rightarrow> Store \<Rightarrow> Store" where
  "setFilterPriority v st = st\<lparr>filterPriority := v\<rparr>"

subsection \<open>Derived values\<close>

definition filteredTasks :: "Store \<Rightarrow> Task list" where
  "filteredTasks st =
     filter (\<lambda>t.
       (let statusMatch =
              (filterStatus st = All \<or>
               (filterStatus st = Active \<and> \<not> completed t) \<or>
               (filterStatus st = Completed \<and> completed t));
            priorityMatch =
              (filterPriority st = AllPriorities \<or> Only (priority t) = filterPriority st)
        in statusMatch \<and> priorityMatch)) (tasks st)"

definition stats :: "Store \<Rightarrow> Stats" where
  "stats st =
     \<lparr>total = length (tasks st),
      active = length (filter (\<lambda>t. \<not> completed t) (tasks st)),
      completed = length (filter (\<lambda>t. completed t) (tasks st))\<rparr>"

subsection \<open>The add-task form (\<open>components/AddTask.tsx\<close>)\<close>

text \<open>
  \<open>submit\<close> reads the editor's markup \<open>html\<close> and the form's priority and due-date
  field, and calls \<open>onAdd\<close>, which \<open>App.tsx\<close> binds to \<open>addTask\<close>, unless the
  plain text of the markup is empty. Only its effect on the store is modelled, not the
  reset of the form's own fields.
\<close>

definition submit ::
  "string \<Rightarrow> string \<Rightarrow> string \<Rightarrow> Priority \<Rightarrow> string \<Rightarrow> Storage \<Rightarrow> Store \<Rightarrow> Store" where
  "submit uuid now html prio dueDateField setItem st =
     (let text = plainText html
      in if text = [] then st
         else addTask uuid now
                \<lparr>NewTaskInput.title = sanitizeTitle html,
                 NewTaskInput.priority = prio,
                 NewTaskInput.dueDate = (if dueDateField = [] then None else Some dueDateField)\<rparr>
                setItem st)"

subsection \<open>Sequences of calls and fixtures\<close>


definition storageOk :: Storage where
  \<comment> \<open>a storage that accepts every write\<close>
  "storageOk ts = None"

definition storageThrows :: "js_error \<Rightarrow> Storage" where
  \<comment> \<open>a storage whose \<open>setItem\<close> throws \<open>err\<close>, as the mocks of the test suite do\<close>
  "storageThrows err ts = Some err"

definition parseThrows :: "string \<Rightarrow> js_error + Task list" where
  \<comment> \<open>\<open>JSON.parse\<close> on a value that is not JSON\<close>
  "parseThrows str = Inl (OtherError ''SyntaxError'')"

definition storedTask :: "string \<Rightarrow> bool \<Rightarrow> Task" where
  \<comment> \<open>the fixture of the test suite, with the id and the flag overridden\<close>
  "storedTask i c =
     \<lparr>idT = i, title = ''Pre-existing task'', completed = c, priority = Medium,
      createdAt = ''2026-01-01T00:00:00.000Z'', dueDate = None\<rparr>"

definition storeOf :: "Task list \<Rightarrow> Store" where
  "storeOf ts =
     \<lparr>tasks = ts, filterStatus = All, filterPriority = AllPriorities, storageError = Null\<rparr>"

definition taskInput :: "string \<Rightarrow> Priority \<Rightarrow> NewTaskInput" where
  "taskInput t p =
     \<lparr>NewTaskInput.title = t, NewTaskInput.priority = p, NewTaskInput.dueDate = None\<rparr>"

section \<open>Properties\<close>

subsection \<open>Auxiliary facts\<close>

lemmas sanitize_eval =
  sanitizeTitle_def sanitizeTitle_alt_def plainText_def replace_def trim_def const_rep_def
  group1_def rx_open_b_def rx_close_b_def rx_open_i_def rx_close_i_def rx_allowed_def
  rx_disallowed_def rx_script_def rx_attrs_def rx_tag_def notGt_def anyChar_def ci_def
  canonicalize_def isSpace_def isWordChar_def wordAt_def nextChar_def

lemmas fixture_eval =
  storageOk_def storageThrows_def parseThrows_def storedTask_def storeOf_def taskInput_def

text \<open>The matcher returns a rest that is no longer than its input, so the test
  \<open>length rest < length s\<close> of \<open>replaceAll\<close> fails for the empty match only.\<close>

lemma mtch_shorter:
  "mtch k cap prev s = Some (cap', prev', s') \<Longrightarrow> length s' \<le> length s"
proof (induction k cap prev s arbitrary: cap' prev' s' rule: mtch.induct)
  case (1 cap prev s)
  then show ?case by simp
next
  case (2 k cap prev s)
  from "2.prems" have "mtch k cap prev s = Some (cap', prev', s')" by (simp only: mtch.simps(2))
  from "2.IH" [OF this] show ?case .
next
  case (3 c k cap prev s)
  from "3.prems" obtain x xs where s: "s = x # xs" and cx: "c x"
    and m: "mtch k cap (Some x) xs = Some (cap', prev', s')"
    by (cases s) (auto split: if_splits)
  from "3.IH" [OF s cx m] show ?case by (simp add: s)
next
  case (4 c k cap prev s)
  show ?case
  proof (cases s)
    case Nil
    with "4.prems" have "mtch k cap prev s = Some (cap', prev', s')" by simp
    with "4.IH"(1) [OF Nil] show ?thesis .
  next
    case (Cons x xs)
    show ?thesis
    proof (cases "c x")
      case False
      with "4.prems" Cons have "mtch k cap prev s = Some (cap', prev', s')" by simp
      with "4.IH"(4) [OF Cons False] show ?thesis .
    next
      case True
      show ?thesis
      proof (cases "mtch (Star c # k) cap (Some x) xs")
        case None
        with "4.prems" Cons True have "mtch k cap prev s = Some (cap', prev', s')" by simp
        with "4.IH"(3) [OF Cons True None] show ?thesis .
      next
        case (Some r)
        with "4.prems" Cons True have "mtch (Star c # k) cap (Some x) xs = Some (cap', prev', s')"
          by simp
        from "4.IH"(2) [OF Cons True this] show ?thesis by (simp add: Cons)
      qed
    qed
  qed
next
  case (5 c k cap prev s)
  from "5.prems" have "mtch (Chr c # Star c # k) cap prev s = Some (cap', prev', s')"
    by (simp only: mtch.simps(5))
  from "5.IH" [OF this] show ?case .
next
  case (6 c k cap prev s)
  show ?case
  proof (cases "mtch k cap prev s")
    case (Some r)
    with "6.prems" have "mtch k cap prev s = Some (cap', prev', s')" by simp
    from "6.IH"(1) [OF this] show ?thesis .
  next
    case None
    with "6.prems" obtain x xs where s: "s = x # xs" and cx: "c x"
      and m: "mtch (LazyStar c # k) cap (Some x) xs = Some (cap', prev', s')"
      by (cases s) (auto split: if_splits)
    from "6.IH"(2) [OF None s cx m] show ?thesis by (simp add: s)
  qed
next
  case (7 a b k cap prev s)
  from "7.prems" have "mtch (a # b # k) cap prev s = Some (cap', prev', s')"
    by (simp only: mtch.simps(7))
  from "7.IH" [OF this] show ?case .
next
  case (8 a b k cap prev s)
  show ?case
  proof (cases "mtch (a # k) cap prev s")
    case (Some r)
    with "8.prems" have "mtch (a # k) cap prev s = Some (cap', prev', s')" by simp
    from "8.IH"(1) [OF this] show ?thesis .
  next
    case None
    with "8.prems" have "mtch (b # k) cap prev s = Some (cap', prev', s')" by simp
    from "8.IH"(2) [OF None this] show ?thesis .
  qed
next
  case (9 a k cap prev s)
  show ?case
  proof (cases "mtch (a # k) cap prev s")
    case (Some r)
    with "9.prems" have "mtch (a # k) cap prev s = Some (cap', prev', s')" by simp
    from "9.IH"(1) [OF this] show ?thesis .
  next
    case None
    with "9.prems" have "mtch k cap prev s = Some (cap', prev', s')" by simp
    from "9.IH"(2) [OF None this] show ?thesis .
  qed
next
  case (10 a k cap prev s)
  show ?case
  proof (cases "mtch [a] cap prev s")
    case (Some r)
    with "10.prems" show ?thesis by simp
  next
    case None
    with "10.prems" have "mtch k cap prev s = Some (cap', prev', s')" by simp
    from "10.IH"(2) [OF None this] show ?thesis .
  qed
next
  case (11 k cap prev s)
  from "11.prems" have w: "wordAt prev \<noteq> wordAt (nextChar s)"
    and m: "mtch k cap prev s = Some (cap', prev', s')"
    by (auto simp only: mtch.simps(11) split: if_splits)
  from "11.IH" [OF w m] show ?case .
next
  case (12 a k cap prev s)
  from "12.prems" have "mtch (a # CapEnd s # k) cap prev s = Some (cap', prev', s')"
    by (simp only: mtch.simps(12))
  from "12.IH" [OF this] show ?case .
next
  case (13 s0 k cap prev s)
  from "13.prems"
  have "mtch k (Some (take (length s0 - length s) s0)) prev s = Some (cap', prev', s')"
    by (simp only: mtch.simps(13))
  from "13.IH" [OF this] show ?case .
qed

lemma tasks_saveEffect [simp]: "tasks (saveEffect setItem st) = tasks st"
  by (simp add: saveEffect_def split: option.splits)

lemma tasks_setTasks_Fresh:
  "tasks (setTasks (\<lambda>prev. Fresh (f prev)) setItem st) = f (tasks st)"
  by (simp add: setTasks_def)

lemma tasks_addTask [simp]:
  "tasks (addTask uuid now input setItem st) = newTask uuid now input # tasks st"
  by (simp add: addTask_def tasks_setTasks_Fresh)

lemma tasks_toggleTask:
  "tasks (toggleTask i setItem st) =
     map (\<lambda>t. if idT t = i then t\<lparr>completed := \<not> completed t\<rparr> else t) (tasks st)"
  by (simp add: toggleTask_def tasks_setTasks_Fresh)

lemma tasks_deleteTask:
  "tasks (deleteTask i setItem st) = filter (\<lambda>t. idT t \<noteq> i) (tasks st)"
  by (simp add: deleteTask_def tasks_setTasks_Fresh)

lemma tasks_clearCompleted:
  "tasks (clearCompleted setItem st) = filter (\<lambda>t. \<not> completed t) (tasks st)"
  by (simp add: clearCompleted_def tasks_setTasks_Fresh)

lemma tasks_updateTask:
  "tasks (updateTask i newTitle setItem st) =
     map (\<lambda>t. if idT t = i then t\<lparr>title := newTitle\<rparr> else t) (tasks st)"
  by (simp add: updateTask_def tasks_setTasks_Fresh)

lemma tasks_reorderTasks:
  "tasks (reorderTasks a b setItem st) =
     (if findIndex (\<lambda>t. idT t = a) (tasks st) = - 1 \<or> findIndex (\<lambda>t. idT t = b) (tasks st) = - 1
      then tasks st
      else arrayMove (tasks st) (nat (findIndex (\<lambda>t. idT t = a) (tasks st)))
             (nat (findIndex (\<lambda>t. idT t = b) (tasks st))))"
  by (simp add: reorderTasks_def setTasks_def Let_def)


lemma count_list_filter_keep: "P t \<Longrightarrow> count_list (filter P xs) t = count_list xs t"
  by (induction xs) auto

lemma findIndex_ge: "- 1 \<le> findIndex p xs"
  by (induction xs) (auto simp: Let_def)

lemma findIndex_absent: "findIndex p xs = - 1 \<longleftrightarrow> (\<forall>x \<in> set xs. \<not> p x)"
proof (induction xs)
  case Nil
  then show ?case by simp
next
  case (Cons x xs)
  have "- 1 \<le> findIndex p xs" by (rule findIndex_ge)
  with Cons show ?case by (auto simp: Let_def)
qed

lemma findIndex_found:
  "findIndex p xs \<noteq> - 1 \<Longrightarrow>
     0 \<le> findIndex p xs \<and> nat (findIndex p xs) < length xs \<and> p (xs ! nat (findIndex p xs)) \<and>
     (\<forall>k < nat (findIndex p xs). \<not> p (xs ! k))"
proof (induction xs)
  case Nil
  then show ?case by simp
next
  case (Cons x xs)
  show ?case
  proof (cases "p x")
    case True
    then show ?thesis by simp
  next
    case False
    with Cons.prems have ne: "findIndex p xs \<noteq> - 1" by (auto simp: Let_def)
    from Cons.IH [OF ne] have ih: "0 \<le> findIndex p xs" "nat (findIndex p xs) < length xs"
      "p (xs ! nat (findIndex p xs))" "\<forall>k < nat (findIndex p xs). \<not> p (xs ! k)" by auto
    have eq: "findIndex p (x # xs) = findIndex p xs + 1" using False ne by (simp add: Let_def)
    have n: "nat (findIndex p xs + 1) = Suc (nat (findIndex p xs))" using ih(1) by simp
    show ?thesis unfolding eq n using ih False
      by (auto simp: nth_Cons split: nat.splits)
  qed
qed

lemma arrayMove_length: "to < length xs \<Longrightarrow> length (arrayMove xs from to) = length xs"
  by (auto simp: arrayMove_def Let_def)

lemma arrayMove_others:
  "from < length xs \<Longrightarrow> to < length xs \<Longrightarrow>
   take to (arrayMove xs from to) @ drop (Suc to) (arrayMove xs from to) =
   take from xs @ drop (Suc from) xs"
proof -
  assume f: "from < length xs" and t: "to < length xs"
  define others where "others = take from xs @ drop (Suc from) xs"
  have len: "length others = length xs - 1" using f by (simp add: others_def)
  then have lt: "length (take to others) = to" using t by simp
  have am: "arrayMove xs from to = take to others @ xs ! from # drop to others"
    using f by (simp add: arrayMove_def Let_def others_def)
  have "take to (arrayMove xs from to) = take to others"
    unfolding am using lt by simp
  moreover have "drop (Suc to) (arrayMove xs from to) = drop to others"
    unfolding am using lt by simp
  ultimately show ?thesis by (simp add: others_def [symmetric])
qed

lemma arrayMove_same: "i < length xs \<Longrightarrow> arrayMove xs i i = xs"
  by (simp add: arrayMove_def Let_def id_take_nth_drop [symmetric])

lemma arrayMove_nth:
  "from < length xs \<Longrightarrow> to < length xs \<Longrightarrow> k < length xs \<Longrightarrow>
   arrayMove xs from to ! k =
     (if k = to then xs ! from
      else if from \<le> k \<and> k < to then xs ! Suc k
      else if to < k \<and> k \<le> from then xs ! (k - 1)
      else xs ! k)"
  by (auto simp: arrayMove_def Let_def nth_append min_def)

subsection \<open>The sanitizer\<close>

text \<open>
  Claim C1: the output of \<open>sanitizeTitle\<close> holds no attribute on an allowed tag and no
  disallowed tag, for every input. The code does not achieve this. The module under
  \<open>src/utils\<close> keeps the attributes of an allowed tag as they are; both copies keep
  an attribute that follows the tag name after a slash instead of white space; and both
  let a disallowed tag survive when it is spliced together by the removal of an inner tag.
\<close>

theorem sanitizeTitle_keeps_attributes:
  "sanitizeTitle ''<strong onclick=evil()>text</strong>'' = ''<strong onclick=evil()>text</strong>'' \<and>
   sanitizeTitle ''<strong/onclick=evil()>text</strong>'' = ''<strong/onclick=evil()>text</strong>'' \<and>
   sanitizeTitle_alt ''<strong/onclick=evil()>text</strong>'' = ''<strong/onclick=evil()>text</strong>'' \<and>
   sanitizeTitle ''<em<x>bed src=x>'' = ''<embed src=x>'' \<and>
   sanitizeTitle_alt ''<em<x>bed src=x>'' = ''<embed src=x>''"
  by (simp add: sanitize_eval)

text \<open>
  Claim C2: \<open>sanitizeTitle\<close> maps \<open><script>alert(1)</script>text\<close> to \<open>text\<close>.
  The module under \<open>src/utils\<close> removes the two tags and keeps the payload; the second
  copy, with its pass over whole \<open>script\<close> elements, returns \<open>text\<close>.
\<close>

theorem sanitizeTitle_script_payload:
  "sanitizeTitle ''<script>alert(1)</script>text'' = ''alert(1)text'' \<and>
   sanitizeTitle_alt ''<script>alert(1)</script>text'' = ''text''"
  by (simp add: sanitize_eval)

subsection \<open>Adding a task\<close>

text \<open>
  Claim C3, as stated, fails on the store: \<open>addTask\<close> makes no emptiness check. A
  title whose plain text is empty after trimming is stored like any other, here the
  title \<open> <strong> </strong> \<close> on the empty collection.
\<close>

theorem addTask_accepts_empty_title:
  "plainText (trim '' <strong> </strong> '') = [] \<and>
   tasks (addTask ''id-1'' ''2026-01-01T00:00:00.000Z'' (taskInput '' <strong> </strong> '' Low)
            storageOk (storeOf []))
     = [\<lparr>idT = ''id-1'', title = ''<strong> </strong>'', completed = False, priority = Low,
         createdAt = ''2026-01-01T00:00:00.000Z'', dueDate = None\<rparr>] \<and>
   tasks (addTask ''id-1'' ''2026-01-01T00:00:00.000Z'' (taskInput '' <strong> </strong> '' Low)
            storageOk (storeOf []))
     \<noteq> tasks (storeOf [])"
  by (simp add: sanitize_eval newTask_def fixture_eval)

text \<open>
  Claim C3 as amended: the check is made by the caller. The form's \<open>submit\<close>
  leaves the store as it is when the plain text of the editor's markup is empty, and
  otherwise adds the sanitized markup; \<open>addTask\<close> itself prepends one task for
  whatever title it is given.
\<close>

theorem submit_empty_noop:
  "(plainText html = [] \<longrightarrow> submit uuid now html prio due setItem st = st) \<and>
   (plainText html \<noteq> [] \<longrightarrow>
      tasks (submit uuid now html prio due setItem st) =
        newTask uuid now
          \<lparr>NewTaskInput.title = sanitizeTitle html, NewTaskInput.priority = prio,
           NewTaskInput.dueDate = (if due = [] then None else Some due)\<rparr> # tasks st) \<and>
   tasks (addTask uuid now input setItem st) = newTask uuid now input # tasks st"
  by (simp add: submit_def)

theorem submit_empty_noop_witness:
  "plainText ''<strong></strong>'' = [] \<and>
   submit ''id-1'' ''2026-01-01T00:00:00.000Z'' ''<strong></strong>'' Medium '''' storageOk
     (storeOf [storedTask ''pre-1'' False]) = storeOf [storedTask ''pre-1'' False]"
  using submit_empty_noop [of "''<strong></strong>''" "''id-1''" "''2026-01-01T00:00:00.000Z''"
      Medium "''''" storageOk "storeOf [storedTask ''pre-1'' False]"]
  by (simp add: sanitize_eval)

subsection \<open>Order of added tasks\<close>




subsection \<open>Persistence\<close>

text \<open>
  Claim C4: whenever an updater produces a new collection \<open>ts\<close>, the collection of the
  store becomes \<open>ts\<close> whatever the save does, and the error signal is \<open>Null\<close> after
  a save that returns, \<open>Full\<close> after one that throws a quota error and \<open>Disabled\<close>
  after one that throws anything else, whatever the signal was before. For each
  operation, the resulting collection is the one a successful save would leave.
\<close>

theorem storageError_state_machine:
  "(updater (tasks st) = Fresh ts \<longrightarrow>
     tasks (setTasks updater setItem st) = ts \<and>
     (setItem ts = None \<longrightarrow> storageError (setTasks updater setItem st) = Null) \<and>
     (\<forall>err. setItem ts = Some err \<and> isQuotaError err \<longrightarrow>
        storageError (setTasks updater setItem st) = Full) \<and>
     (\<forall>err. setItem ts = Some err \<and> \<not> isQuotaError err \<longrightarrow>
        storageError (setTasks updater setItem st) = Disabled)) \<and>
   tasks (addTask uuid now input setItem st) = tasks (addTask uuid now input storageOk st) \<and>
   tasks (toggleTask i setItem st) = tasks (toggleTask i storageOk st) \<and>
   tasks (updateTask i newTitle setItem st) = tasks (updateTask i newTitle storageOk st) \<and>
   tasks (deleteTask i setItem st) = tasks (deleteTask i storageOk st) \<and>
   tasks (clearCompleted setItem st) = tasks (clearCompleted storageOk st) \<and>
   tasks (reorderTasks a b setItem st) = tasks (reorderTasks a b storageOk st)"
  by (auto simp add: setTasks_def saveEffect_def tasks_toggleTask tasks_updateTask
      tasks_deleteTask tasks_clearCompleted tasks_reorderTasks split: option.splits)

theorem storageError_state_machine_witness:
  "storageError (deleteTask ''pre-1'' (storageThrows (DOMException 22 ''QuotaExceededError''))
      (storeOf [storedTask ''pre-1'' False])) = Full \<and>
   tasks (deleteTask ''pre-1'' (storageThrows (DOMException 22 ''QuotaExceededError''))
      (storeOf [storedTask ''pre-1'' False])) = [] \<and>
   storageError (deleteTask ''pre-1'' (storageThrows (DOMException 18 ''SecurityError''))
      (storeOf [storedTask ''pre-1'' False])) = Disabled \<and>
   tasks (deleteTask ''pre-1'' (storageThrows (DOMException 18 ''SecurityError''))
      (storeOf [storedTask ''pre-1'' False])) = [] \<and>
   storageError (deleteTask ''pre-1'' storageOk
      ((storeOf [storedTask ''pre-1'' False])\<lparr>storageError := Full\<rparr>)) = Null"
  using
    storageError_state_machine [of "\<lambda>prev. Fresh (filter (\<lambda>t. idT t \<noteq> ''pre-1'') prev)"
      "storeOf [storedTask ''pre-1'' False]" "[]"
      "storageThrows (DOMException 22 ''QuotaExceededError'')"]
    storageError_state_machine [of "\<lambda>prev. Fresh (filter (\<lambda>t. idT t \<noteq> ''pre-1'') prev)"
      "storeOf [storedTask ''pre-1'' False]" "[]"
      "storageThrows (DOMException 18 ''SecurityError'')"]
    storageError_state_machine [of "\<lambda>prev. Fresh (filter (\<lambda>t. idT t \<noteq> ''pre-1'') prev)"
      "(storeOf [storedTask ''pre-1'' False])\<lparr>storageError := Full\<rparr>" "[]" storageOk]
  by (simp add: deleteTask_def fixture_eval isQuotaError_def)

text \<open>
  Claim C5: \<open>loadTasks\<close> always returns a collection, never an error; it returns the
  empty collection when the key is missing, when \<open>JSON.parse\<close> throws on the stored
  value, and when the storage itself throws.
\<close>

theorem loadTasks_never_raises:
  "(\<exists>ts. loadTasks getItem parse = Inr ts) \<and>
   (getItem = Inr None \<longrightarrow> loadTasks getItem parse = Inr []) \<and>
   (\<forall>str err. getItem = Inr (Some str) \<and> parse str = Inl err \<longrightarrow>
      loadTasks getItem parse = Inr []) \<and>
   (\<forall>err. getItem = Inl err \<longrightarrow> loadTasks getItem parse = Inr [])"
  by (auto simp add: loadTasks_def loadTasks_try_def split: sum.splits option.splits)

theorem loadTasks_never_raises_witness:
  "loadTasks (Inr None) parseThrows = Inr [] \<and>
   parseThrows ''not valid json {{{{'' = Inl (OtherError ''SyntaxError'') \<and>
   loadTasks (Inr (Some ''not valid json {{{{'')) parseThrows = Inr [] \<and>
   loadTasks (Inl (DOMException 18 ''SecurityError'')) parseThrows = Inr []"
  using loadTasks_never_raises [of "Inr None" parseThrows]
    loadTasks_never_raises [of "Inr (Some ''not valid json {{{{'')" parseThrows]
    loadTasks_never_raises [of "Inl (DOMException 18 ''SecurityError'')" parseThrows]
  by (simp add: parseThrows_def)

subsection \<open>Statistics\<close>

text \<open>
  Claim C6: in every store state, \<open>total\<close> is the length of the whole collection,
  \<open>active + completed = total\<close>, and neither filter setter changes the statistics
  or the collection they are computed from.
\<close>

theorem stats_over_whole_collection:
  "total (stats st) = length (tasks st) \<and>
   active (stats st) + Stats.completed (stats st) = total (stats st) \<and>
   stats (setFilterStatus f st) = stats st \<and>
   stats (setFilterPriority p st) = stats st \<and>
   tasks (setFilterStatus f st) = tasks st \<and>
   tasks (setFilterPriority p st) = tasks st"
  by (simp add: stats_def setFilterStatus_def setFilterPriority_def sum_length_filter_compl
      add.commute)

subsection \<open>Reordering\<close>

text \<open>
  Claim C7: \<open>reorderTasks a b\<close> leaves the store as it is when either id is absent and
  the collection as it is when \<open>a = b\<close>. When both ids are present, the task found for
  \<open>a\<close> ends at the index where \<open>b\<close> was found, the collection without that task is
  the same before and after, so that the tasks between the two indices shift by one
  position and all others stay in place.
\<close>

theorem reorderTasks_array_move:
  "(let prev = tasks st;
        oldIndex = findIndex (\<lambda>t. idT t = a) prev;
        newIndex = findIndex (\<lambda>t. idT t = b) prev;
        next = tasks (reorderTasks a b setItem st)
    in (a \<notin> idT ` set prev \<or> b \<notin> idT ` set prev \<longrightarrow> reorderTasks a b setItem st = st) \<and>
       (a = b \<longrightarrow> next = prev) \<and>
       (a \<in> idT ` set prev \<and> b \<in> idT ` set prev \<longrightarrow>
          0 \<le> oldIndex \<and> nat oldIndex < length prev \<and> idT (prev ! nat oldIndex) = a \<and>
          0 \<le> newIndex \<and> nat newIndex < length prev \<and> idT (prev ! nat newIndex) = b \<and>
          length next = length prev \<and>
          next ! nat newIndex = prev ! nat oldIndex \<and>
          take (nat newIndex) next @ drop (Suc (nat newIndex)) next =
            take (nat oldIndex) prev @ drop (Suc (nat oldIndex)) prev \<and>
          (\<forall>k < length prev.
             next ! k =
               (if k = nat newIndex then prev ! nat oldIndex
                else if nat oldIndex \<le> k \<and> k < nat newIndex then prev ! Suc k
                else if nat newIndex < k \<and> k \<le> nat oldIndex then prev ! (k - 1)
                else prev ! k))))"
proof -
  define prev where "prev = tasks st"
  define i where "i = findIndex (\<lambda>t. idT t = a) prev"
  define j where "j = findIndex (\<lambda>t. idT t = b) prev"
  define nxt where "nxt = tasks (reorderTasks a b setItem st)"
  have absent_i: "i = - 1 \<longleftrightarrow> a \<notin> idT ` set prev"
    unfolding i_def findIndex_absent by auto
  have absent_j: "j = - 1 \<longleftrightarrow> b \<notin> idT ` set prev"
    unfolding j_def findIndex_absent by auto
  have nxt_eq: "nxt = (if i = - 1 \<or> j = - 1 then prev else arrayMove prev (nat i) (nat j))"
    unfolding nxt_def i_def j_def prev_def by (rule tasks_reorderTasks)
  have p1: "a \<notin> idT ` set prev \<or> b \<notin> idT ` set prev \<longrightarrow> reorderTasks a b setItem st = st"
    using absent_i absent_j
    by (auto simp: reorderTasks_def setTasks_def Let_def i_def j_def prev_def)
  have p2: "a = b \<longrightarrow> nxt = prev"
  proof
    assume ab: "a = b"
    then have ij: "i = j" by (simp add: i_def j_def)
    show "nxt = prev"
    proof (cases "i = - 1")
      case True
      then show ?thesis by (simp add: nxt_eq)
    next
      case False
      then have "nat i < length prev" unfolding i_def using findIndex_found by blast
      then show ?thesis using False ij by (simp add: nxt_eq arrayMove_same)
    qed
  qed
  have p3: "a \<in> idT ` set prev \<and> b \<in> idT ` set prev \<longrightarrow>
          0 \<le> i \<and> nat i < length prev \<and> idT (prev ! nat i) = a \<and>
          0 \<le> j \<and> nat j < length prev \<and> idT (prev ! nat j) = b \<and>
          length nxt = length prev \<and>
          nxt ! nat j = prev ! nat i \<and>
          take (nat j) nxt @ drop (Suc (nat j)) nxt = take (nat i) prev @ drop (Suc (nat i)) prev \<and>
          (\<forall>k < length prev.
             nxt ! k =
               (if k = nat j then prev ! nat i
                else if nat i \<le> k \<and> k < nat j then prev ! Suc k
                else if nat j < k \<and> k \<le> nat i then prev ! (k - 1)
                else prev ! k))"
  proof
    assume "a \<in> idT ` set prev \<and> b \<in> idT ` set prev"
    then have ni: "i \<noteq> - 1" and nj: "j \<noteq> - 1" using absent_i absent_j by auto
    from findIndex_found [OF ni [unfolded i_def]]
    have fi: "0 \<le> i" "nat i < length prev" "idT (prev ! nat i) = a" by (auto simp: i_def)
    from findIndex_found [OF nj [unfolded j_def]]
    have fj: "0 \<le> j" "nat j < length prev" "idT (prev ! nat j) = b" by (auto simp: j_def)
    have nx: "nxt = arrayMove prev (nat i) (nat j)" using ni nj by (simp add: nxt_eq)
    have l: "length nxt = length prev" unfolding nx using fj(2) by (rule arrayMove_length)
    have o: "take (nat j) nxt @ drop (Suc (nat j)) nxt = take (nat i) prev @ drop (Suc (nat i)) prev"
      unfolding nx using fi(2) fj(2) by (rule arrayMove_others)
    have n: "\<forall>k < length prev.
             nxt ! k =
               (if k = nat j then prev ! nat i
                else if nat i \<le> k \<and> k < nat j then prev ! Suc k
                else if nat j < k \<and> k \<le> nat i then prev ! (k - 1)
                else prev ! k)"
      unfolding nx using arrayMove_nth [OF fi(2) fj(2)] by blast
    have t: "nxt ! nat j = prev ! nat i" using n fj(2) by simp
    show "0 \<le> i \<and> nat i < length prev \<and> idT (prev ! nat i) = a \<and>
          0 \<le> j \<and> nat j < length prev \<and> idT (prev ! nat j) = b \<and>
          length nxt = length prev \<and>
          nxt ! nat j = prev ! nat i \<and>
          take (nat j) nxt @ drop (Suc (nat j)) nxt = take (nat i) prev @ drop (Suc (nat i)) prev \<and>
          (\<forall>k < length prev.
             nxt ! k =
               (if k = nat j then prev ! nat i
                else if nat i \<le> k \<and> k < nat j then prev ! Suc k
                else if nat j < k \<and> k \<le> nat i then prev ! (k - 1)
                else prev ! k))"
      using fi fj l o n t by blast
  qed
  show ?thesis
    unfolding Let_def
    using p1 p2 p3 unfolding nxt_def i_def j_def prev_def by blast
qed

theorem reorderTasks_array_move_witness:
  "''c'' \<in> idT ` set [storedTask ''c'' False, storedTask ''b'' True, storedTask ''a'' False] \<and>
   ''a'' \<in> idT ` set [storedTask ''c'' False, storedTask ''b'' True, storedTask ''a'' False] \<and>
   findIndex (\<lambda>t. idT t = ''c'') [storedTask ''c'' False, storedTask ''b'' True, storedTask ''a'' False] = 0 \<and>
   findIndex (\<lambda>t. idT t = ''a'') [storedTask ''c'' False, storedTask ''b'' True, storedTask ''a'' False] = 2 \<and>
   tasks (reorderTasks ''c'' ''a'' storageOk
            (storeOf [storedTask ''c'' False, storedTask ''b'' True, storedTask ''a'' False])) ! 2
     = storedTask ''c'' False \<and>
   length (tasks (reorderTasks ''c'' ''a'' storageOk
            (storeOf [storedTask ''c'' False, storedTask ''b'' True, storedTask ''a'' False]))) = 3 \<and>
   take 2 (tasks (reorderTasks ''c'' ''a'' storageOk
            (storeOf [storedTask ''c'' False, storedTask ''b'' True, storedTask ''a'' False]))) @
   drop 3 (tasks (reorderTasks ''c'' ''a'' storageOk
            (storeOf [storedTask ''c'' False, storedTask ''b'' True, storedTask ''a'' False])))
     = [storedTask ''b'' True, storedTask ''a'' False] \<and>
   ''ghost'' \<notin> idT ` set [storedTask ''c'' False, storedTask ''b'' True, storedTask ''a'' False] \<and>
   reorderTasks ''ghost'' ''a'' storageOk
      (storeOf [storedTask ''c'' False, storedTask ''b'' True, storedTask ''a'' False])
     = storeOf [storedTask ''c'' False, storedTask ''b'' True, storedTask ''a'' False] \<and>
   tasks (reorderTasks ''b'' ''b'' storageOk
      (storeOf [storedTask ''c'' False, storedTask ''b'' True, storedTask ''a'' False]))
     = [storedTask ''c'' False, storedTask ''b'' True, storedTask ''a'' False]"
  using
    reorderTasks_array_move [where a = "''c''" and b = "''a''" and setItem = storageOk and
      st = "storeOf [storedTask ''c'' False, storedTask ''b'' True, storedTask ''a'' False]"]
    reorderTasks_array_move [where a = "''ghost''" and b = "''a''" and setItem = storageOk and
      st = "storeOf [storedTask ''c'' False, storedTask ''b'' True, storedTask ''a'' False]"]
    reorderTasks_array_move [where a = "''b''" and b = "''b''" and setItem = storageOk and
      st = "storeOf [storedTask ''c'' False, storedTask ''b'' True, storedTask ''a'' False]"]
  by (clarsimp simp add: Let_def storeOf_def storedTask_def)

subsection \<open>Toggling\<close>

text \<open>
  Claim C8: toggling the same id twice gives back the collection; one toggle keeps the
  length, leaves every task with another id as it is and flips the flag of each task
  with that id; when no task has the id, the collection is unchanged.
\<close>

theorem toggleTask_involution:
  "tasks (toggleTask i setItem' (toggleTask i setItem st)) = tasks st \<and>
   length (tasks (toggleTask i setItem st)) = length (tasks st) \<and>
   (\<forall>k < length (tasks st). idT (tasks st ! k) \<noteq> i \<longrightarrow>
      tasks (toggleTask i setItem st) ! k = tasks st ! k) \<and>
   (\<forall>k < length (tasks st). idT (tasks st ! k) = i \<longrightarrow>
      tasks (toggleTask i setItem st) ! k =
        (tasks st ! k)\<lparr>completed := \<not> completed (tasks st ! k)\<rparr>) \<and>
   (i \<notin> idT ` set (tasks st) \<longrightarrow> tasks (toggleTask i setItem st) = tasks st)"
  by (auto simp add: tasks_toggleTask o_def intro!: map_idI)

theorem toggleTask_involution_witness:
  "tasks (toggleTask ''a'' storageOk (toggleTask ''a'' storageOk
      (storeOf [storedTask ''a'' False, storedTask ''b'' True])))
     = [storedTask ''a'' False, storedTask ''b'' True] \<and>
   tasks (toggleTask ''a'' storageOk (storeOf [storedTask ''a'' False, storedTask ''b'' True])) ! 0
     = storedTask ''a'' True \<and>
   tasks (toggleTask ''a'' storageOk (storeOf [storedTask ''a'' False, storedTask ''b'' True])) ! 1
     = storedTask ''b'' True \<and>
   ''nonexistent'' \<notin> idT ` set [storedTask ''a'' False, storedTask ''b'' True] \<and>
   tasks (toggleTask ''nonexistent'' storageOk
      (storeOf [storedTask ''a'' False, storedTask ''b'' True]))
     = [storedTask ''a'' False, storedTask ''b'' True]"
proof -
  let ?st = "storeOf [storedTask ''a'' False, storedTask ''b'' True]"
  note t = toggleTask_involution [of "''a''" storageOk storageOk ?st]
  note u = toggleTask_involution [of "''nonexistent''" storageOk storageOk ?st]
  have 1: "tasks (toggleTask ''a'' storageOk (toggleTask ''a'' storageOk ?st)) = tasks ?st"
    using t by blast
  have 2: "tasks (toggleTask ''a'' storageOk ?st) ! 0 = (tasks ?st ! 0)\<lparr>completed := \<not> completed (tasks ?st ! 0)\<rparr>"
    using t [THEN conjunct2, THEN conjunct2, THEN conjunct2, THEN conjunct1, rule_format, of 0]
    by (simp add: storeOf_def storedTask_def)
  have 3: "tasks (toggleTask ''a'' storageOk ?st) ! 1 = tasks ?st ! 1"
    using t [THEN conjunct2, THEN conjunct2, THEN conjunct1, rule_format, of 1]
    by (simp add: storeOf_def storedTask_def)
  have 4: "''nonexistent'' \<notin> idT ` set (tasks ?st)" by (simp add: storeOf_def storedTask_def)
  have 5: "tasks (toggleTask ''nonexistent'' storageOk ?st) = tasks ?st"
    using u 4 by blast
  show ?thesis using 1 2 3 4 5 by (simp add: storeOf_def storedTask_def)
qed

subsection \<open>Clearing completed tasks\<close>

text \<open>
  Claim C9: \<open>clearCompleted\<close> keeps exactly the tasks that are not completed, each as
  often as before and in the same relative order (the result is a subsequence of the
  collection); when no task is completed the collection is unchanged.
\<close>

theorem clearCompleted_exact:
  "tasks (clearCompleted setItem st) = filter (\<lambda>t. \<not> completed t) (tasks st) \<and>
   subseq (tasks (clearCompleted setItem st)) (tasks st) \<and>
   (\<forall>t \<in> set (tasks (clearCompleted setItem st)). \<not> completed t) \<and>
   (\<forall>t. \<not> completed t \<longrightarrow>
      count_list (tasks (clearCompleted setItem st)) t = count_list (tasks st) t) \<and>
   ((\<forall>t \<in> set (tasks st). \<not> completed t) \<longrightarrow> tasks (clearCompleted setItem st) = tasks st)"
  by (simp add: tasks_clearCompleted count_list_filter_keep filter_id_conv)

theorem clearCompleted_exact_witness:
  "tasks (clearCompleted storageOk
      (storeOf [storedTask ''a'' False, storedTask ''b'' True, storedTask ''c'' False]))
     = [storedTask ''a'' False, storedTask ''c'' False] \<and>
   \<not> completed (storedTask ''a'' False) \<and> \<not> completed (storedTask ''c'' False) \<and>
   tasks (clearCompleted storageOk (storeOf [storedTask ''a'' False, storedTask ''c'' False]))
     = [storedTask ''a'' False, storedTask ''c'' False]"
  using
    clearCompleted_exact [of storageOk
      "storeOf [storedTask ''a'' False, storedTask ''b'' True, storedTask ''c'' False]"]
    clearCompleted_exact [of storageOk "storeOf [storedTask ''a'' False, storedTask ''c'' False]"]
  by (simp add: storeOf_def storedTask_def)

end
